theory Spec2Isabelle
  imports Main
begin

section \<open>Python values of the module \<^verbatim>\<open>favoritos\<close>\<close>

text \<open>
  A Python \<^verbatim>\<open>str\<close> is modelled as a \<^typ>\<open>string\<close> in which every \<^typ>\<open>char\<close> is one
  code point below 256 (Latin-1), not a UTF-8 byte: the accented letters of the source's
  literals (\<^verbatim>\<open>0xE1\<close>, \<^verbatim>\<open>0xE3\<close>, \<^verbatim>\<open>0xED\<close>, \<^verbatim>\<open>0xF4\<close>) are single characters, as they are
  in Python. Strings with code points from 256 on are outside the model.
\<close>

datatype pyobj = PyNone | PyBool bool | PyInt int | PyStr string

text \<open>\<^verbatim>\<open>**kwargs\<close>: the keyword options of a call, in the order given.\<close>

type_synonym kwargs = "(string \<times> pyobj) list"

text \<open>
  A \<^verbatim>\<open>pandas.DataFrame\<close>: its columns in order, each a label and the cells below it.
\<close>

type_synonym dataframe = "(string \<times> pyobj list) list"

datatype error =
    DAB_UFError string
  | ValueError string
  | KeyError string
  | ResourceUnavailable string

subsection \<open>\<^verbatim>\<open>str.lower\<close> and the rendering of an \<^verbatim>\<open>int\<close>\<close>

text \<open>
  \<^verbatim>\<open>str.lower()\<close> on code points below 256: \<^verbatim>\<open>A\<close>..\<^verbatim>\<open>Z\<close> and \<^verbatim>\<open>0xC0\<close>..\<^verbatim>\<open>0xDE\<close> (the
  multiplication sign \<^verbatim>\<open>0xD7\<close> apart) move up by 32, every other character stays.
\<close>

definition lower_char :: "char \<Rightarrow> char" where
  "lower_char c =
     (let n = (of_char c :: nat) in
      if (65 \<le> n \<and> n \<le> 90) \<or> (192 \<le> n \<and> n \<le> 222 \<and> n \<noteq> 215)
      then char_of (n + 32) else c)"

definition lower :: "string \<Rightarrow> string" where
  "lower s = map lower_char s"

text \<open>The decimal digits of a natural number, most significant first.\<close>

fun digits :: "nat \<Rightarrow> string" where
  "digits n =
     (if n < 10 then [''0123456789'' ! n]
      else digits (n div 10) @ [''0123456789'' ! (n mod 10)])"

declare digits.simps [simp del]

text \<open>What an f-string writes for \<^verbatim>\<open>{tamanho}\<close> when \<^verbatim>\<open>tamanho\<close> is an \<^verbatim>\<open>int\<close>.\<close>

definition str_int :: "int \<Rightarrow> string" where
  "str_int i = (if i < 0 then CHR ''-'' # digits (nat (- i)) else digits (nat i))"

subsection \<open>Substrings\<close>

fun startswith :: "string \<Rightarrow> string \<Rightarrow> bool" where
  "startswith s [] = True"
| "startswith [] (p # ps) = False"
| "startswith (c # cs) (p # ps) = (c = p \<and> startswith cs ps)"

text \<open>The number of positions of \<open>s\<close> at which \<open>pat\<close> begins.\<close>

fun occurrences :: "string \<Rightarrow> string \<Rightarrow> nat" where
  "occurrences pat [] = (if pat = [] then 1 else 0)"
| "occurrences pat (c # cs) =
     (if startswith (c # cs) pat then 1 else 0) + occurrences pat cs"

definition is_digit :: "char \<Rightarrow> bool" where
  "is_digit c = (let n = (of_char c :: nat) in 48 \<le> n \<and> n \<le> 57)"

text \<open>
  The numeric size tokens of a URL: every maximal run of decimal digits that is followed
  at once by \<^verbatim>\<open>px\<close>, in order of appearance.
\<close>

fun size_tokens_from :: "string \<Rightarrow> string \<Rightarrow> string list" where
  "size_tokens_from run [] = []"
| "size_tokens_from run (c # cs) =
     (if is_digit c then size_tokens_from (run @ [c]) cs
      else if run \<noteq> [] \<and> startswith (c # cs) ''px'' then run # size_tokens_from [] cs
      else size_tokens_from [] cs)"

definition size_tokens :: "string \<Rightarrow> string list" where
  "size_tokens s = size_tokens_from [] s"

section \<open>The external collaborators\<close>

text \<open>
  Every call that leaves the module is recorded: \<^verbatim>\<open>bacen.serie(cod, **kwargs)\<close>,
  \<^verbatim>\<open>ipea.serie(cod=..., index=...)\<close>, \<^verbatim>\<open>requests.get(url).json()\<close> and
  \<^verbatim>\<open>pandas.read_json(url)\<close>.
\<close>

datatype call =
    Bacen_serie int kwargs
  | Ipea_serie string bool
  | Requests_get_json string
  | Pd_read_json string

text \<open>
  What the collaborators answer. An answer is the value returned or the exception raised;
  the module never catches one.
\<close>

record 'js world =
  bacen_serie :: "int \<Rightarrow> kwargs \<Rightarrow> error + dataframe"
  ipea_serie :: "string \<Rightarrow> bool \<Rightarrow> error + dataframe"
  requests_get_json :: "string \<Rightarrow> error + 'js"
  pd_read_json :: "string \<Rightarrow> error + dataframe"

text \<open>A world in which every table request gets the answer \<open>t\<close> and every JSON request \<open>j\<close>.\<close>

definition answering :: "error + dataframe \<Rightarrow> error + 'js \<Rightarrow> 'js world" where
  "answering t j =
     \<lparr>bacen_serie = (\<lambda>cod kw. t), ipea_serie = (\<lambda>cod index. t),
      requests_get_json = (\<lambda>url. j), pd_read_json = (\<lambda>url. t)\<rparr>"

text \<open>
  The outcome of a public operation: the calls it made to collaborators, in order, and the
  value it returned (\<open>Inr\<close>) or the exception it raised (\<open>Inl\<close>).
\<close>

type_synonym 'a outcome = "call list \<times> (error + 'a)"

section \<open>The state identifier resolver \<^verbatim>\<open>parse.uf\<close>\<close>

text \<open>
  Modelled from the spec: \<^verbatim>\<open>parse.uf\<close> of \<^verbatim>\<open>_utils/parse.py\<close>, which \<^verbatim>\<open>favoritos.py\<close> imports,
  is not among the sources. The spec gives its contract: the input is matched, after
  lowercasing and stripping of diacritics applied to both sides, exactly against the
  canonical two-letter codes and the full names, and against the two extinct codes and
  names only when extinct ones are allowed (off by default); anything else fails with the
  invalid-identifier error, which names the rejected input. The codes are the keys of the
  tables of \<^verbatim>\<open>favoritos.py\<close> (\<^verbatim>\<open>FN\<close> and \<^verbatim>\<open>GB\<close> under its comment \<^verbatim>\<open># Extintos\<close>); the spec does not
  list the names, the usual Portuguese ones are taken. The exception is the
  \<^verbatim>\<open>DAB_UFError\<close> of the docstrings.
\<close>

definition strip_diacritic :: "char \<Rightarrow> char" where
  "strip_diacritic c =
     (let n = (of_char c :: nat) in
      if 224 \<le> n \<and> n \<le> 229 then CHR ''a''
      else if n = 231 then CHR ''c''
      else if 232 \<le> n \<and> n \<le> 235 then CHR ''e''
      else if 236 \<le> n \<and> n \<le> 239 then CHR ''i''
      else if n = 241 then CHR ''n''
      else if 242 \<le> n \<and> n \<le> 246 then CHR ''o''
      else if 249 \<le> n \<and> n \<le> 252 then CHR ''u''
      else if n = 253 \<or> n = 255 then CHR ''y''
      else c)"

definition normalize :: "string \<Rightarrow> string" where
  "normalize s = map strip_diacritic (lower s)"

definition ufs_atuais :: "(string \<times> string) list" where
  "ufs_atuais =
    [(''BR'', ''BR''), (''Brasil'', ''BR''),
     (''AC'', ''AC''), (''Acre'', ''AC''),
     (''AM'', ''AM''), (''Amazonas'', ''AM''),
     (''AP'', ''AP''), (''Amap'' @ [CHR 0xE1], ''AP''),
     (''PA'', ''PA''), (''Par'' @ [CHR 0xE1], ''PA''),
     (''RO'', ''RO''), (''Rond'' @ [CHR 0xF4] @ ''nia'', ''RO''),
     (''RR'', ''RR''), (''Roraima'', ''RR''),
     (''TO'', ''TO''), (''Tocantins'', ''TO''),
     (''AL'', ''AL''), (''Alagoas'', ''AL''),
     (''BA'', ''BA''), (''Bahia'', ''BA''),
     (''CE'', ''CE''), (''Cear'' @ [CHR 0xE1], ''CE''),
     (''MA'', ''MA''), (''Maranh'' @ [CHR 0xE3] @ ''o'', ''MA''),
     (''PB'', ''PB''), (''Para'' @ [CHR 0xED] @ ''ba'', ''PB''),
     (''PE'', ''PE''), (''Pernambuco'', ''PE''),
     (''PI'', ''PI''), (''Piau'' @ [CHR 0xED], ''PI''),
     (''RN'', ''RN''), (''Rio Grande do Norte'', ''RN''),
     (''SE'', ''SE''), (''Sergipe'', ''SE''),
     (''ES'', ''ES''), (''Esp'' @ [CHR 0xED] @ ''rito Santo'', ''ES''),
     (''MG'', ''MG''), (''Minas Gerais'', ''MG''),
     (''RJ'', ''RJ''), (''Rio de Janeiro'', ''RJ''),
     (''SP'', ''SP''), (''S'' @ [CHR 0xE3] @ ''o Paulo'', ''SP''),
     (''PR'', ''PR''), (''Paran'' @ [CHR 0xE1], ''PR''),
     (''RS'', ''RS''), (''Rio Grande do Sul'', ''RS''),
     (''SC'', ''SC''), (''Santa Catarina'', ''SC''),
     (''DF'', ''DF''), (''Distrito Federal'', ''DF''),
     (''GO'', ''GO''), (''Goi'' @ [CHR 0xE1] @ ''s'', ''GO''),
     (''MT'', ''MT''), (''Mato Grosso'', ''MT''),
     (''MS'', ''MS''), (''Mato Grosso do Sul'', ''MS'')]"
definition ufs_extintos :: "(string \<times> string) list" where
  "ufs_extintos =
    [(''FN'', ''FN''), (''Fernando de Noronha'', ''FN''),
     (''GB'', ''GB''), (''Guanabara'', ''GB'')]"

definition parse_uf :: "string \<Rightarrow> bool \<Rightarrow> error + string" where
  "parse_uf uf extintos =
     (case find (\<lambda>(nome, sigla). normalize nome = normalize uf)
             (ufs_atuais @ (if extintos then ufs_extintos else [])) of
        Some (nome, sigla) \<Rightarrow> Inr sigla
      | None \<Rightarrow> Inl (DAB_UFError uf))"

section \<open>The operations of \<^verbatim>\<open>favoritos.py\<close>\<close>

subsection \<open>\<^verbatim>\<open>geojson\<close>\<close>

definition mapping :: "(string \<times> int) list" where
  "mapping =
    [(''BR'', 100),
     (''AC'', 12),
     (''AM'', 13),
     (''AP'', 16),
     (''PA'', 15),
     (''RO'', 11),
     (''RR'', 14),
     (''TO'', 17),
     (''AL'', 27),
     (''BA'', 29),
     (''CE'', 23),
     (''MA'', 21),
     (''PB'', 25),
     (''PE'', 26),
     (''PI'', 22),
     (''RN'', 24),
     (''SE'', 28),
     (''ES'', 32),
     (''MG'', 31),
     (''RJ'', 33),
     (''SP'', 35),
     (''PR'', 41),
     (''RS'', 43),
     (''SC'', 42),
     (''DF'', 53),
     (''GO'', 52),
     (''MT'', 51),
     (''MS'', 50)]"
definition geojson_url :: "int \<Rightarrow> string" where
  "geojson_url n =
     ''https://raw.githubusercontent.com/tbrugz/geodata-br/master/geojson/geojs-''
       @ str_int n @ ''-mun.json''"

text \<open>
  \<^verbatim>\<open>parse.uf(uf)\<close> runs first, with extinct codes off; \<^verbatim>\<open>mapping[uf]\<close> raises \<^verbatim>\<open>KeyError\<close> on a
  key the table lacks, while the URL is built, before any request.
\<close>

definition geojson :: "'js world \<Rightarrow> string \<Rightarrow> 'js outcome" where
  "geojson w uf =
     (case parse_uf uf False of
        Inl e \<Rightarrow> ([], Inl e)
      | Inr sigla \<Rightarrow>
          (case map_of mapping sigla of
             None \<Rightarrow> ([], Inl (KeyError sigla))
           | Some n \<Rightarrow>
               ([Requests_get_json (geojson_url n)], requests_get_json w (geojson_url n))))"

subsection \<open>\<^verbatim>\<open>codigos_municipios\<close>\<close>

definition municipios_URL :: string where
  "municipios_URL =
     ''https://raw.githubusercontent.com/betafcc/Municipios-Brasileiros-TSE/master/municipios_brasileiros_tse.json''"

text \<open>
  \<^verbatim>\<open>df[labels]\<close> with a list of labels: pandas raises \<^verbatim>\<open>KeyError\<close> when a label is not a
  column of \<open>df\<close> (here carrying the first such label), and otherwise returns, label by
  label in the order asked, every column of \<open>df\<close> under that label.
\<close>

definition getitem_columns :: "dataframe \<Rightarrow> string list \<Rightarrow> error + dataframe" where
  "getitem_columns df labels =
     (case find (\<lambda>l. l \<notin> set (map fst df)) labels of
        Some l \<Rightarrow> Inl (KeyError l)
      | None \<Rightarrow> Inr (concat (map (\<lambda>l. filter (\<lambda>(label, cells). label = l) df) labels)))"

definition codigos_municipios :: "'js world \<Rightarrow> dataframe outcome" where
  "codigos_municipios w =
     (case pd_read_json w municipios_URL of
        Inl e \<Rightarrow> ([Pd_read_json municipios_URL], Inl e)
      | Inr df \<Rightarrow>
          ([Pd_read_json municipios_URL],
           getitem_columns df
             [''codigo_tse'', ''codigo_ibge'', ''nome_municipio'', ''uf'', ''capital'']))"

subsection \<open>\<^verbatim>\<open>bandeira\<close> and \<^verbatim>\<open>brasao\<close>\<close>

definition wikimedia_URL :: string where
  "wikimedia_URL = ''https://upload.wikimedia.org/wikipedia/commons/thumb/''"

definition bandeira_table :: "int \<Rightarrow> (string \<times> string) list" where
  "bandeira_table tamanho =
    [
     (''BR'', ''0/05/Flag_of_Brazil.svg/'' @ str_int tamanho @ ''px-Flag_of_Brazil.svg.png''),
     (''AC'', ''4/4c/Bandeira_do_Acre.svg/'' @ str_int tamanho @ ''px-Bandeira_do_Acre.svg.png''),
     (''AM'', ''6/6b/Bandeira_do_Amazonas.svg/'' @ str_int tamanho @ ''px-Bandeira_do_Amazonas.svg.png''),
     (''AL'', ''8/88/Bandeira_de_Alagoas.svg/'' @ str_int tamanho @ ''px-Bandeira_de_Alagoas.svg.png''),
     (''AP'', ''0/0c/Bandeira_do_Amap%C3%A1.svg/'' @ str_int tamanho @ ''px-Bandeira_do_Amap%C3%A1.svg.png''),
     (''BA'', ''2/28/Bandeira_da_Bahia.svg/'' @ str_int tamanho @ ''px-Bandeira_da_Bahia.svg.png''),
     (''CE'', ''2/2e/Bandeira_do_Cear%C3%A1.svg/'' @ str_int tamanho @ ''px-Bandeira_do_Cear%C3%A1.svg.png''),
     (''DF'', ''3/3c/Bandeira_do_Distrito_Federal_%28Brasil%29.svg/'' @ str_int tamanho @ ''px-Bandeira_do_Distrito_Federal_%28Brasil%29.svg.png''),
     (''ES'', ''4/43/Bandeira_do_Esp%C3%ADrito_Santo.svg/'' @ str_int tamanho @ ''px-Bandeira_do_Esp%C3%ADrito_Santo.svg.png''),
     (''GO'', ''b/be/Flag_of_Goi%C3%A1s.svg/'' @ str_int tamanho @ ''px-Flag_of_Goi%C3%A1s.svg.png''),
     (''MA'', ''4/45/Bandeira_do_Maranh%C3%A3o.svg/'' @ str_int tamanho @ ''px-Bandeira_do_Maranh%C3%A3o.svg.png''),
     (''MG'', ''f/f4/Bandeira_de_Minas_Gerais.svg/'' @ str_int tamanho @ ''px-Bandeira_de_Minas_Gerais.svg.png''),
     (''MT'', ''0/0b/Bandeira_de_Mato_Grosso.svg/'' @ str_int tamanho @ ''px-Bandeira_de_Mato_Grosso.svg.png''),
     (''MS'', ''6/64/Bandeira_de_Mato_Grosso_do_Sul.svg/'' @ str_int tamanho @ ''px-Bandeira_de_Mato_Grosso_do_Sul.svg.png''),
     (''PA'', ''0/02/Bandeira_do_Par%C3%A1.svg/'' @ str_int tamanho @ ''px-Bandeira_do_Par%C3%A1.svg.png''),
     (''PB'', ''b/bb/Bandeira_da_Para%C3%ADba.svg/'' @ str_int tamanho @ ''px-Bandeira_da_Para%C3%ADba.svg.png''),
     (''PE'', ''5/59/Bandeira_de_Pernambuco.svg/'' @ str_int tamanho @ ''px-Bandeira_de_Pernambuco.svg.png''),
     (''PI'', ''3/33/Bandeira_do_Piau%C3%AD.svg/'' @ str_int tamanho @ ''px-Bandeira_do_Piau%C3%AD.svg.png''),
     (''PR'', ''9/93/Bandeira_do_Paran%C3%A1.svg/'' @ str_int tamanho @ ''px-Bandeira_do_Paran%C3%A1.svg.png''),
     (''RJ'', ''7/73/Bandeira_do_estado_do_Rio_de_Janeiro.svg/'' @ str_int tamanho @ ''px-Bandeira_do_estado_do_Rio_de_Janeiro.svg.png''),
     (''RO'', ''f/fa/Bandeira_de_Rond%C3%B4nia.svg/'' @ str_int tamanho @ ''px-Bandeira_de_Rond%C3%B4nia.svg.png''),
     (''RN'', ''3/30/Bandeira_do_Rio_Grande_do_Norte.svg/'' @ str_int tamanho @ ''px-Bandeira_do_Rio_Grande_do_Norte.svg.png''),
     (''RR'', ''9/98/Bandeira_de_Roraima.svg/'' @ str_int tamanho @ ''px-Bandeira_de_Roraima.svg.png''),
     (''RS'', ''6/63/Bandeira_do_Rio_Grande_do_Sul.svg/'' @ str_int tamanho @ ''px-Bandeira_do_Rio_Grande_do_Sul.svg.png''),
     (''SC'', ''1/1a/Bandeira_de_Santa_Catarina.svg/'' @ str_int tamanho @ ''px-Bandeira_de_Santa_Catarina.svg.png''),
     (''SE'', ''b/be/Bandeira_de_Sergipe.svg/'' @ str_int tamanho @ ''px-Bandeira_de_Sergipe.svg.png''),
     (''SP'', ''2/2b/Bandeira_do_estado_de_S%C3%A3o_Paulo.svg/'' @ str_int tamanho @ ''px-Bandeira_do_estado_de_S%C3%A3o_Paulo.svg.png''),
     (''TO'', ''f/ff/Bandeira_do_Tocantins.svg/'' @ str_int tamanho @ ''px-Bandeira_do_Tocantins.svg.png''),
     (''FN'', ''3/3b/Fernando_de_Noronha%2C_PE_-_Bandeira.svg/'' @ str_int tamanho @ ''px-Fernando_de_Noronha%2C_PE_-_Bandeira.svg.png''),
     (''GB'', ''c/c3/Bandeira_do_Estado_da_Guanabara_%281960%E2%80%931975%29.png/'' @ str_int tamanho @ ''px-Bandeira_do_Estado_da_Guanabara_%281960%E2%80%931975%29.png'')
    ]"
definition bandeira :: "string \<Rightarrow> int \<Rightarrow> string outcome" where
  "bandeira uf tamanho =
     (case parse_uf uf True of
        Inl e \<Rightarrow> ([], Inl e)
      | Inr sigla \<Rightarrow>
          (case map_of (bandeira_table tamanho) sigla of
             None \<Rightarrow> ([], Inl (KeyError sigla))
           | Some fragmento \<Rightarrow> ([], Inr (wikimedia_URL @ fragmento))))"

definition brasao_table :: "int \<Rightarrow> (string \<times> string) list" where
  "brasao_table tamanho =
    [
     (''BR'', ''b/bf/Coat_of_arms_of_Brazil.svg/'' @ str_int tamanho @ ''px-Coat_of_arms_of_Brazil.svg.png''),
     (''AC'', (''5/52/Bras'' @ [CHR 0xE3] @ ''o_do_Acre.svg/'') @ str_int tamanho @ (''px-Bras'' @ [CHR 0xE3] @ ''o_do_Acre.svg.png'')),
     (''AM'', ''2/2c/Bras%C3%A3o_do_Amazonas.svg/'' @ str_int tamanho @ ''px-Bras%C3%A3o_do_Amazonas.svg.png''),
     (''AL'', ''5/5c/Bras%C3%A3o_do_Estado_de_Alagoas.svg/'' @ str_int tamanho @ ''px-Bras%C3%A3o_do_Estado_de_Alagoas.svg.png''),
     (''AP'', ''6/63/Bras%C3%A3o_do_Amap%C3%A1.svg/'' @ str_int tamanho @ ''px-Bras%C3%A3o_do_Amap%C3%A1.svg.png''),
     (''BA'', ''1/12/Bras%C3%A3o_do_estado_da_Bahia.svg/'' @ str_int tamanho @ ''px-Bras%C3%A3o_do_estado_da_Bahia.svg.png''),
     (''CE'', ''f/fe/Bras%C3%A3o_do_Cear%C3%A1.svg/'' @ str_int tamanho @ ''px-Bras%C3%A3o_do_Cear%C3%A1.svg.png''),
     (''DF'', ''e/e0/Bras%C3%A3o_do_Distrito_Federal_%28Brasil%29.svg/'' @ str_int tamanho @ ''px-Bras%C3%A3o_do_Distrito_Federal_%28Brasil%29.svg.png''),
     (''ES'', ''a/a0/Bras%C3%A3o_do_Esp%C3%ADrito_Santo.svg/'' @ str_int tamanho @ ''px-Bras%C3%A3o_do_Esp%C3%ADrito_Santo.svg.png''),
     (''GO'', ''b/bf/Bras%C3%A3o_de_Goi%C3%A1s.svg/'' @ str_int tamanho @ ''px-Bras%C3%A3o_de_Goi%C3%A1s.svg.png''),
     (''MA'', (''a/ab/Bras'' @ [CHR 0xE3] @ ''o_do_Maranh'' @ [CHR 0xE3] @ ''o.svg/'') @ str_int tamanho @ (''px-Bras'' @ [CHR 0xE3] @ ''o_do_Maranh'' @ [CHR 0xE3] @ ''o.svg.png'')),
     (''MG'', (''d/d2/Bras'' @ [CHR 0xE3] @ ''o_de_Minas_Gerais.svg/'') @ str_int tamanho @ (''px-Bras'' @ [CHR 0xE3] @ ''o_de_Minas_Gerais.svg.png'')),
     (''MT'', (''0/04/Bras'' @ [CHR 0xE3] @ ''o_de_Mato_Grosso.png/'') @ str_int tamanho @ (''px-Bras'' @ [CHR 0xE3] @ ''o_de_Mato_Grosso.png'')),
     (''MS'', (''f/fa/Bras'' @ [CHR 0xE3] @ ''o_de_Mato_Grosso_do_Sul.svg/'') @ str_int tamanho @ (''px-Bras'' @ [CHR 0xE3] @ ''o_de_Mato_Grosso_do_Sul.svg.png'')),
     (''PA'', (''b/bc/Bras'' @ [CHR 0xE3] @ ''o_do_Par'' @ [CHR 0xE1] @ ''.svg/'') @ str_int tamanho @ (''px-Bras'' @ [CHR 0xE3] @ ''o_do_Par'' @ [CHR 0xE1] @ ''.svg.png'')),
     (''PB'', (''f/fd/Bras'' @ [CHR 0xE3] @ ''o_da_Para'' @ [CHR 0xED] @ ''ba.svg/'') @ str_int tamanho @ (''px-Bras'' @ [CHR 0xE3] @ ''o_da_Para'' @ [CHR 0xED] @ ''ba.svg.png'')),
     (''PE'', (''0/04/Bras'' @ [CHR 0xE3] @ ''o_do_estado_de_Pernambuco.svg/'') @ str_int tamanho @ (''px-Bras'' @ [CHR 0xE3] @ ''o_do_estado_de_Pernambuco.svg.png'')),
     (''PI'', (''a/ad/Bras'' @ [CHR 0xE3] @ ''o_do_Piau'' @ [CHR 0xED] @ ''.svg/'') @ str_int tamanho @ (''px-Bras'' @ [CHR 0xE3] @ ''o_do_Piau'' @ [CHR 0xED] @ ''.svg.png'')),
     (''PR'', (''4/49/Bras'' @ [CHR 0xE3] @ ''o_do_Paran'' @ [CHR 0xE1] @ ''.svg/'') @ str_int tamanho @ (''px-Bras'' @ [CHR 0xE3] @ ''o_do_Paran'' @ [CHR 0xE1] @ ''.svg.png'')),
     (''RJ'', (''5/5b/Bras'' @ [CHR 0xE3] @ ''o_do_estado_do_Rio_de_Janeiro.svg/'') @ str_int tamanho @ (''px-Bras'' @ [CHR 0xE3] @ ''o_do_estado_do_Rio_de_Janeiro.svg.png'')),
     (''RO'', (''f/f1/Bras'' @ [CHR 0xE3] @ ''o_de_Rond'' @ [CHR 0xF4] @ ''nia.svg/'') @ str_int tamanho @ (''px-Bras'' @ [CHR 0xE3] @ ''o_de_Rond'' @ [CHR 0xF4] @ ''nia.svg.png'')),
     (''RN'', (''2/26/Bras'' @ [CHR 0xE3] @ ''o_do_Rio_Grande_do_Norte.svg/'') @ str_int tamanho @ (''px-Bras'' @ [CHR 0xE3] @ ''o_do_Rio_Grande_do_Norte.svg.png'')),
     (''RR'', (''e/ed/Bras'' @ [CHR 0xE3] @ ''o_de_Roraima.svg/'') @ str_int tamanho @ (''px-Bras'' @ [CHR 0xE3] @ ''o_de_Roraima.svg.png'')),
     (''RS'', (''3/38/Bras'' @ [CHR 0xE3] @ ''o_do_Rio_Grande_do_Sul.svg/'') @ str_int tamanho @ (''px-Bras'' @ [CHR 0xE3] @ ''o_do_Rio_Grande_do_Sul.svg.png'')),
     (''SC'', (''6/65/Bras'' @ [CHR 0xE3] @ ''o_de_Santa_Catarina.svg/'') @ str_int tamanho @ (''px-Bras'' @ [CHR 0xE3] @ ''o_de_Santa_Catarina.svg.png'')),
     (''SE'', (''5/52/Bras'' @ [CHR 0xE3] @ ''o_de_Sergipe.svg/'') @ str_int tamanho @ (''px-Bras'' @ [CHR 0xE3] @ ''o_de_Sergipe.svg.png'')),
     (''SP'', (''1/1a/Bras'' @ [CHR 0xE3] @ ''o_do_estado_de_S'' @ [CHR 0xE3] @ ''o_Paulo.svg/'') @ str_int tamanho @ (''px-Bras'' @ [CHR 0xE3] @ ''o_do_estado_de_S'' @ [CHR 0xE3] @ ''o_Paulo.svg.png'')),
     (''TO'', (''c/cc/Bras'' @ [CHR 0xE3] @ ''o_do_Tocantins.svg/'') @ str_int tamanho @ (''px-Bras'' @ [CHR 0xE3] @ ''o_do_Tocantins.svg.png'')),
     (''FN'', ''5/5a/Fernando_de_Noronha%2C_PE_-_Bras%C3%A3o.svg/'' @ str_int tamanho @ ''px-Fernando_de_Noronha%2C_PE_-_Bras%C3%A3o.svg.png''),
     (''GB'', ''c/cf/Bras%C3%A3o_do_Estado_da_Guanabara_%281960%E2%80%931975%29.png/'' @ str_int tamanho @ ''px-Bras%C3%A3o_do_Estado_da_Guanabara_%281960%E2%80%931975%29.png'')
    ]"
definition brasao :: "string \<Rightarrow> int \<Rightarrow> string outcome" where
  "brasao uf tamanho =
     (case parse_uf uf True of
        Inl e \<Rightarrow> ([], Inl e)
      | Inr sigla \<Rightarrow>
          (case map_of (brasao_table tamanho) sigla of
             None \<Rightarrow> ([], Inl (KeyError sigla))
           | Some fragmento \<Rightarrow> ([], Inr (wikimedia_URL @ fragmento))))"

subsection \<open>The time series of the Banco Central\<close>

definition ipca :: "'js world \<Rightarrow> kwargs \<Rightarrow> dataframe outcome" where
  "ipca w kwargs = ([Bacen_serie 433 kwargs], bacen_serie w 433 kwargs)"

definition selic :: "'js world \<Rightarrow> kwargs \<Rightarrow> dataframe outcome" where
  "selic w kwargs = ([Bacen_serie 432 kwargs], bacen_serie w 432 kwargs)"

definition taxa_referencial :: "'js world \<Rightarrow> kwargs \<Rightarrow> dataframe outcome" where
  "taxa_referencial w kwargs = ([Bacen_serie 226 kwargs], bacen_serie w 226 kwargs)"

definition rentabilidade_poupanca :: "'js world \<Rightarrow> kwargs \<Rightarrow> dataframe outcome" where
  "rentabilidade_poupanca w kwargs = ([Bacen_serie 195 kwargs], bacen_serie w 195 kwargs)"

definition periodo_invalido :: string where
  "periodo_invalido =
     ''Per'' @ [CHR 0xED] @ ''odo inv'' @ [CHR 0xE1]
       @ ''lido. Escolha um dos seguintes valores: '' @ [CHR 0x27] @ ''mensal'' @ [CHR 0x27]
       @ '' ou '' @ [CHR 0x27] @ ''diaria'' @ [CHR 0x27] @ ''.''"

definition reservas_internacionais :: "'js world \<Rightarrow> string \<Rightarrow> kwargs \<Rightarrow> dataframe outcome" where
  "reservas_internacionais w periodo kwargs =
     (if lower periodo = ''mensal''
      then ([Bacen_serie 3546 kwargs], bacen_serie w 3546 kwargs)
      else if lower periodo \<in> set [''diaria'', ''diario'', ''di'' @ [CHR 0xE1] @ ''rio'',
                                   ''di'' @ [CHR 0xE1] @ ''ria'']
      then ([Bacen_serie 13621 kwargs], bacen_serie w 13621 kwargs)
      else ([], Inl (ValueError periodo_invalido)))"

subsection \<open>The time series of Ipeadata\<close>

definition risco_brasil :: "'js world \<Rightarrow> bool \<Rightarrow> dataframe outcome" where
  "risco_brasil w index =
     ([Ipea_serie ''JPM366_EMBI366'' index], ipea_serie w ''JPM366_EMBI366'' index)"

definition tipo_invalido :: string where
  "tipo_invalido =
     ''Tipo inv'' @ [CHR 0xE1] @ ''lido. Escolha um dos seguintes valores: ''
       @ [CHR 0x27] @ ''nominal'' @ [CHR 0x27] @ '', '' @ [CHR 0x27] @ ''real'' @ [CHR 0x27]
       @ '' ou '' @ [CHR 0x27] @ ''ppc'' @ [CHR 0x27] @ ''.''"

definition salario_minimo :: "'js world \<Rightarrow> string \<Rightarrow> bool \<Rightarrow> dataframe outcome" where
  "salario_minimo w tipo index =
     (if lower tipo = ''nominal''
      then ([Ipea_serie ''MTE12_SALMIN12'' index], ipea_serie w ''MTE12_SALMIN12'' index)
      else if lower tipo = ''real''
      then ([Ipea_serie ''GAC12_SALMINRE12'' index], ipea_serie w ''GAC12_SALMINRE12'' index)
      else if lower tipo = ''ppc''
      then ([Ipea_serie ''GAC12_SALMINDOL12'' index], ipea_serie w ''GAC12_SALMINDOL12'' index)
      else ([], Inl (ValueError tipo_invalido)))"

section \<open>The time-series shortcuts\<close>

text \<open>
  C8. Each shortcut makes exactly one call, to its collaborator, with a series identifier
  that is a constant of the shortcut, and hands back the collaborator's answer:
  \<^verbatim>\<open>ipca\<close> asks \<^verbatim>\<open>bacen.serie\<close> for 433, \<^verbatim>\<open>selic\<close> for 432, \<^verbatim>\<open>taxa_referencial\<close> for 226,
  \<^verbatim>\<open>rentabilidade_poupanca\<close> for 195, each with the caller's keyword options as given, and
  \<^verbatim>\<open>risco_brasil\<close> asks \<^verbatim>\<open>ipea.serie\<close> for \<^verbatim>\<open>JPM366_EMBI366\<close> with the caller's index flag. The
  statement holds for every world and all options, so the identifier does not depend on
  them.
\<close>

theorem series_shortcuts_fixed_identifier:
  "ipca w kwargs = ([Bacen_serie 433 kwargs], bacen_serie w 433 kwargs)
   \<and> selic w kwargs = ([Bacen_serie 432 kwargs], bacen_serie w 432 kwargs)
   \<and> taxa_referencial w kwargs = ([Bacen_serie 226 kwargs], bacen_serie w 226 kwargs)
   \<and> rentabilidade_poupanca w kwargs = ([Bacen_serie 195 kwargs], bacen_serie w 195 kwargs)
   \<and> risco_brasil w index =
         ([Ipea_serie ''JPM366_EMBI366'' index], ipea_serie w ''JPM366_EMBI366'' index)"
  by (simp add: ipca_def selic_def taxa_referencial_def rentabilidade_poupanca_def
      risco_brasil_def)

lemma periodo_invalido_lists:
  "0 < occurrences ([CHR 0x27] @ ''mensal'' @ [CHR 0x27]) periodo_invalido
   \<and> 0 < occurrences ([CHR 0x27] @ ''diaria'' @ [CHR 0x27]) periodo_invalido"
  by code_simp

lemma periodo_invalido_omits:
  "occurrences ''diario'' periodo_invalido = 0
   \<and> occurrences (''di'' @ [CHR 0xE1] @ ''rio'') periodo_invalido = 0
   \<and> occurrences (''di'' @ [CHR 0xE1] @ ''ria'') periodo_invalido = 0"
  by code_simp

text \<open>
  The spelling \<^verbatim>\<open>diario\<close> is accepted, and the message raised for a rejected string does
  not contain it: the message does not list every accepted value.
\<close>

theorem reservas_internacionais_message_omits_diario:
  "reservas_internacionais (answering (Inr []) (Inr ())) ''diario'' []
     = ([Bacen_serie 13621 []], Inr [])
   \<and> reservas_internacionais (answering (Inr []) (Inr ())) ''anual'' []
     = ([], Inl (ValueError periodo_invalido))
   \<and> occurrences ''diario'' periodo_invalido = 0"
proof -
  have a: "lower ''diario'' = ''diario''" by code_simp
  have b: "lower ''anual'' = ''anual''" by code_simp
  have c: "occurrences ''diario'' periodo_invalido = 0" by code_simp
  show ?thesis
    by (simp add: reservas_internacionais_def a b c answering_def)
qed

text \<open>
  C1, amended. When \<^verbatim>\<open>periodo.lower()\<close> is \<^verbatim>\<open>mensal\<close>, \<^verbatim>\<open>reservas_internacionais\<close> makes the
  single call \<^verbatim>\<open>bacen.serie(3546, **kwargs)\<close> and returns its answer; when it is one of the
  four spellings of the daily option, the single call \<^verbatim>\<open>bacen.serie(13621, **kwargs)\<close>; for
  every other string it raises \<^verbatim>\<open>ValueError\<close> with the message \<open>periodo_invalido\<close> and calls
  no collaborator. The message names the two options by the quoted values \<^verbatim>\<open>'mensal'\<close> and
  \<^verbatim>\<open>'diaria'\<close>; the three other accepted spellings of the daily option do not occur in it.
\<close>

theorem reservas_internacionais_dispatch:
  "(lower periodo = ''mensal'' \<longrightarrow>
      reservas_internacionais w periodo kwargs
        = ([Bacen_serie 3546 kwargs], bacen_serie w 3546 kwargs))
   \<and> (lower periodo \<in> {''diaria'', ''diario'', ''di'' @ [CHR 0xE1] @ ''rio'',
                          ''di'' @ [CHR 0xE1] @ ''ria''} \<longrightarrow>
      reservas_internacionais w periodo kwargs
        = ([Bacen_serie 13621 kwargs], bacen_serie w 13621 kwargs))
   \<and> (lower periodo \<notin> {''mensal'', ''diaria'', ''diario'', ''di'' @ [CHR 0xE1] @ ''rio'',
                          ''di'' @ [CHR 0xE1] @ ''ria''} \<longrightarrow>
      reservas_internacionais w periodo kwargs = ([], Inl (ValueError periodo_invalido)))
   \<and> 0 < occurrences ([CHR 0x27] @ ''mensal'' @ [CHR 0x27]) periodo_invalido
   \<and> 0 < occurrences ([CHR 0x27] @ ''diaria'' @ [CHR 0x27]) periodo_invalido
   \<and> occurrences ''diario'' periodo_invalido = 0
   \<and> occurrences (''di'' @ [CHR 0xE1] @ ''rio'') periodo_invalido = 0
   \<and> occurrences (''di'' @ [CHR 0xE1] @ ''ria'') periodo_invalido = 0"
proof -
  have d: "(lower periodo = ''mensal'' \<longrightarrow>
      reservas_internacionais w periodo kwargs
        = ([Bacen_serie 3546 kwargs], bacen_serie w 3546 kwargs))
   \<and> (lower periodo \<in> {''diaria'', ''diario'', ''di'' @ [CHR 0xE1] @ ''rio'',
                          ''di'' @ [CHR 0xE1] @ ''ria''} \<longrightarrow>
      reservas_internacionais w periodo kwargs
        = ([Bacen_serie 13621 kwargs], bacen_serie w 13621 kwargs))
   \<and> (lower periodo \<notin> {''mensal'', ''diaria'', ''diario'', ''di'' @ [CHR 0xE1] @ ''rio'',
                          ''di'' @ [CHR 0xE1] @ ''ria''} \<longrightarrow>
      reservas_internacionais w periodo kwargs = ([], Inl (ValueError periodo_invalido)))"
    by (auto simp add: reservas_internacionais_def)
  from d periodo_invalido_lists periodo_invalido_omits show ?thesis by (intro conjI) simp_all
qed

theorem reservas_internacionais_dispatch_witness:
  "lower ''Mensal'' = ''mensal''
   \<and> reservas_internacionais (answering (Inr []) (Inr ())) ''Mensal'' [(''ultimos'', PyInt 5)]
        = ([Bacen_serie 3546 [(''ultimos'', PyInt 5)]], Inr [])
   \<and> lower (''DI'' @ [CHR 0xC1] @ ''RIA'') = ''di'' @ [CHR 0xE1] @ ''ria''
   \<and> reservas_internacionais (answering (Inr []) (Inr ())) (''DI'' @ [CHR 0xC1] @ ''RIA'') []
        = ([Bacen_serie 13621 []], Inr [])
   \<and> lower ''anual'' = ''anual''
   \<and> reservas_internacionais (answering (Inr []) (Inr ())) ''anual'' []
        = ([], Inl (ValueError periodo_invalido))"
proof -
  let ?w = "answering (Inr []) (Inr ()) :: unit world"
  have a: "lower ''Mensal'' = ''mensal''" by code_simp
  have b: "lower (''DI'' @ [CHR 0xC1] @ ''RIA'') = ''di'' @ [CHR 0xE1] @ ''ria''" by code_simp
  have c: "lower ''anual'' = ''anual''" by code_simp
  have w: "bacen_serie ?w = (\<lambda>cod kw. Inr [])" by (simp add: answering_def)
  show ?thesis
    using reservas_internacionais_dispatch [of "''Mensal''" ?w "[(''ultimos'', PyInt 5)]"]
      reservas_internacionais_dispatch [of "''DI'' @ [CHR 0xC1] @ ''RIA''" ?w "[]"]
      reservas_internacionais_dispatch [of "''anual''" ?w "[]"]
    unfolding a b c w by simp
qed

lemma tipo_invalido_lists:
  "0 < occurrences ([CHR 0x27] @ ''nominal'' @ [CHR 0x27]) tipo_invalido
   \<and> 0 < occurrences ([CHR 0x27] @ ''real'' @ [CHR 0x27]) tipo_invalido
   \<and> 0 < occurrences ([CHR 0x27] @ ''ppc'' @ [CHR 0x27]) tipo_invalido"
  by code_simp

text \<open>
  C2. When \<^verbatim>\<open>tipo.lower()\<close> is \<^verbatim>\<open>nominal\<close>, \<^verbatim>\<open>real\<close> or \<^verbatim>\<open>ppc\<close>, \<^verbatim>\<open>salario_minimo\<close> makes the single
  call \<^verbatim>\<open>ipea.serie\<close> with the code \<^verbatim>\<open>MTE12_SALMIN12\<close>, \<^verbatim>\<open>GAC12_SALMINRE12\<close> or
  \<^verbatim>\<open>GAC12_SALMINDOL12\<close> respectively and the index flag as given; two spellings with the same
  lowercasing have the same outcome; for every other string it raises \<^verbatim>\<open>ValueError\<close> with
  the message \<open>tipo_invalido\<close>, which quotes the three accepted values, and calls no
  collaborator.
\<close>

theorem salario_minimo_dispatch:
  "(lower tipo = ''nominal'' \<longrightarrow>
      salario_minimo w tipo index
        = ([Ipea_serie ''MTE12_SALMIN12'' index], ipea_serie w ''MTE12_SALMIN12'' index))
   \<and> (lower tipo = ''real'' \<longrightarrow>
      salario_minimo w tipo index
        = ([Ipea_serie ''GAC12_SALMINRE12'' index], ipea_serie w ''GAC12_SALMINRE12'' index))
   \<and> (lower tipo = ''ppc'' \<longrightarrow>
      salario_minimo w tipo index
        = ([Ipea_serie ''GAC12_SALMINDOL12'' index], ipea_serie w ''GAC12_SALMINDOL12'' index))
   \<and> (lower tipo \<notin> {''nominal'', ''real'', ''ppc''} \<longrightarrow>
      salario_minimo w tipo index = ([], Inl (ValueError tipo_invalido)))
   \<and> (lower tipo = lower tipo' \<longrightarrow> salario_minimo w tipo index = salario_minimo w tipo' index)
   \<and> 0 < occurrences ([CHR 0x27] @ ''nominal'' @ [CHR 0x27]) tipo_invalido
   \<and> 0 < occurrences ([CHR 0x27] @ ''real'' @ [CHR 0x27]) tipo_invalido
   \<and> 0 < occurrences ([CHR 0x27] @ ''ppc'' @ [CHR 0x27]) tipo_invalido"
  using tipo_invalido_lists by (auto simp add: salario_minimo_def)

theorem salario_minimo_dispatch_witness:
  "lower ''Nominal'' = ''nominal''
   \<and> salario_minimo (answering (Inr []) (Inr ())) ''Nominal'' True
        = ([Ipea_serie ''MTE12_SALMIN12'' True], Inr [])
   \<and> lower ''REAL'' = ''real''
   \<and> salario_minimo (answering (Inr []) (Inr ())) ''REAL'' False
        = ([Ipea_serie ''GAC12_SALMINRE12'' False], Inr [])
   \<and> lower ''ppc'' = ''ppc''
   \<and> salario_minimo (answering (Inr []) (Inr ())) ''ppc'' True
        = ([Ipea_serie ''GAC12_SALMINDOL12'' True], Inr [])
   \<and> lower ''bogus'' = ''bogus''
   \<and> salario_minimo (answering (Inr []) (Inr ())) ''bogus'' False
        = ([], Inl (ValueError tipo_invalido))
   \<and> salario_minimo (answering (Inr []) (Inr ())) ''REAL'' False
        = salario_minimo (answering (Inr []) (Inr ())) ''real'' False"
proof -
  let ?w = "answering (Inr []) (Inr ()) :: unit world"
  have a: "lower ''Nominal'' = ''nominal''" by code_simp
  have b: "lower ''REAL'' = ''real''" by code_simp
  have c: "lower ''ppc'' = ''ppc''" by code_simp
  have d: "lower ''bogus'' = ''bogus''" by code_simp
  have e: "lower ''real'' = ''real''" by code_simp
  have w: "ipea_serie ?w = (\<lambda>cod index. Inr [])" by (simp add: answering_def)
  show ?thesis
    using salario_minimo_dispatch [of "''Nominal''" ?w True "''Nominal''"]
      salario_minimo_dispatch [of "''REAL''" ?w False "''real''"]
      salario_minimo_dispatch [of "''ppc''" ?w True "''ppc''"]
      salario_minimo_dispatch [of "''bogus''" ?w False "''bogus''"]
    by (auto simp add: a b c d e w)
qed

section \<open>The resolver and \<^verbatim>\<open>geojson\<close>\<close>

lemma find_append_cases:
  "find P (xs @ ys) = (case find P xs of None \<Rightarrow> find P ys | Some x \<Rightarrow> Some x)"
  by (induction xs) auto

lemma find_Some_in_set: "find P xs = Some x \<Longrightarrow> x \<in> set xs"
  by (induction xs) (auto split: if_splits)

lemma parse_uf_range:
  assumes "parse_uf uf extintos = Inr sigla"
  shows "sigla \<in> snd ` set (ufs_atuais @ (if extintos then ufs_extintos else []))"
proof -
  from assms obtain nome where
    "find (\<lambda>(nome, sigla). normalize nome = normalize uf)
       (ufs_atuais @ (if extintos then ufs_extintos else [])) = Some (nome, sigla)"
    by (auto simp add: parse_uf_def split: option.splits)
  then have "(nome, sigla) \<in> set (ufs_atuais @ (if extintos then ufs_extintos else []))"
    by (rule find_Some_in_set)
  then show ?thesis by force
qed

lemma siglas_atuais: "snd ` set ufs_atuais = fst ` set mapping"
  unfolding ufs_atuais_def mapping_def by simp

lemma mapping_defined: "c \<in> fst ` set mapping \<Longrightarrow> \<exists>n. map_of mapping c = Some n"
  by (cases "map_of mapping c") (auto simp add: map_of_eq_None_iff)

lemma parse_uf_atual_mapping:
  "parse_uf uf False = Inr sigla \<Longrightarrow> \<exists>n. map_of mapping sigla = Some n"
  using parse_uf_range [of uf False sigla] siglas_atuais mapping_defined by simp

text \<open>
  C5. For every identifier that the resolver maps to a code (extinct codes off, as
  \<^verbatim>\<open>geojson\<close> calls it), the table \<open>mapping\<close> of 28 entries has a number for that code
  (100 for \<^verbatim>\<open>BR\<close>, 12 for \<^verbatim>\<open>AC\<close>, 42 for \<^verbatim>\<open>SC\<close>), and \<^verbatim>\<open>geojson\<close> makes exactly one request, for
  the URL \<^verbatim>\<open>https://raw.githubusercontent.com/tbrugz/geodata-br/master/geojson/geojs-N-mun.json\<close>
  with that number written in decimal for \<^verbatim>\<open>N\<close>, and its outcome is the collaborator's
  answer to that request, unchanged.
\<close>

theorem geojson_fetches_region:
  "parse_uf uf False = Inr sigla \<Longrightarrow>
     (\<exists>n. map_of mapping sigla = Some n
        \<and> geojson w uf =
            ([Requests_get_json
                (''https://raw.githubusercontent.com/tbrugz/geodata-br/master/geojson/geojs-''
                   @ str_int n @ ''-mun.json'')],
             requests_get_json w
                (''https://raw.githubusercontent.com/tbrugz/geodata-br/master/geojson/geojs-''
                   @ str_int n @ ''-mun.json'')))
     \<and> length mapping = 28
     \<and> map_of mapping ''BR'' = Some 100
     \<and> map_of mapping ''AC'' = Some 12
     \<and> map_of mapping ''SC'' = Some 42"
proof -
  assume r: "parse_uf uf False = Inr sigla"
  then obtain n where n: "map_of mapping sigla = Some n"
    using parse_uf_atual_mapping by blast
  have "geojson w uf = ([Requests_get_json (geojson_url n)], requests_get_json w (geojson_url n))"
    using r n by (simp add: geojson_def)
  moreover have "length mapping = 28" by (simp add: mapping_def)
  moreover have "map_of mapping ''BR'' = Some 100" by (simp add: mapping_def)
  moreover have "map_of mapping ''AC'' = Some 12" by (simp add: mapping_def)
  moreover have "map_of mapping ''SC'' = Some 42" by (simp add: mapping_def)
  ultimately show ?thesis using n by (simp add: geojson_url_def)
qed

theorem geojson_fetches_region_witness:
  "parse_uf ''Santa Catarina'' False = Inr ''SC''
   \<and> geojson (answering (Inr []) (Inr ''{}'')) ''Santa Catarina'' =
       ([Requests_get_json
           ''https://raw.githubusercontent.com/tbrugz/geodata-br/master/geojson/geojs-42-mun.json''],
        Inr ''{}'')"
proof -
  let ?w = "answering (Inr []) (Inr ''{}'') :: string world"
  have r: "parse_uf ''Santa Catarina'' False = Inr ''SC''" by code_simp
  have s: "str_int 42 = ''42''" by code_simp
  have w: "requests_get_json ?w = (\<lambda>url. Inr ''{}'')" by (simp add: answering_def)
  show ?thesis
    using geojson_fetches_region [OF r, of ?w] by (auto simp add: r s w)
qed

lemma extinct_not_atual: "''FN'' \<notin> snd ` set ufs_atuais" "''GB'' \<notin> snd ` set ufs_atuais"
  unfolding ufs_atuais_def by simp_all

lemma parse_uf_extinct_rejected:
  assumes "parse_uf uf True = Inr sigla" and "sigla = ''FN'' \<or> sigla = ''GB''"
  shows "parse_uf uf False = Inl (DAB_UFError uf)"
proof (cases "find (\<lambda>(nome, sigla). normalize nome = normalize uf) ufs_atuais")
  case None
  then show ?thesis by (simp add: parse_uf_def)
next
  case (Some p)
  then have "parse_uf uf True = Inr (snd p)"
    by (cases p) (simp add: parse_uf_def find_append_cases)
  moreover have "p \<in> set ufs_atuais" using Some by (rule find_Some_in_set)
  ultimately have "sigla \<in> snd ` set ufs_atuais" using assms(1) by force
  with assms(2) extinct_not_atual show ?thesis by blast
qed

text \<open>
  C6. \<^verbatim>\<open>geojson\<close> does not accept extinct codes: an identifier that resolves to \<^verbatim>\<open>FN\<close> or
  \<^verbatim>\<open>GB\<close> when extinct codes are allowed is rejected by the resolver as \<^verbatim>\<open>geojson\<close> calls it,
  and \<^verbatim>\<open>geojson\<close> then raises that very error and makes no request; whatever error the
  resolver raises is the error of \<^verbatim>\<open>geojson\<close>, with no request made. In particular
  \<^verbatim>\<open>geojson('GB')\<close> fails with the invalid-identifier error for \<^verbatim>\<open>GB\<close>.
\<close>

theorem geojson_rejects_extinct:
  "(parse_uf uf True = Inr sigla \<and> (sigla = ''FN'' \<or> sigla = ''GB'') \<longrightarrow>
      parse_uf uf False = Inl (DAB_UFError uf) \<and> geojson w uf = ([], Inl (DAB_UFError uf)))
   \<and> (parse_uf uf False = Inl e \<longrightarrow> geojson w uf = ([], Inl e))
   \<and> parse_uf ''GB'' False = Inl (DAB_UFError ''GB'')
   \<and> geojson w ''GB'' = ([], Inl (DAB_UFError ''GB''))"
proof -
  have g: "parse_uf ''GB'' False = Inl (DAB_UFError ''GB'')" by code_simp
  have p: "parse_uf u False = Inl x \<Longrightarrow> geojson w u = ([], Inl x)" for u x
    by (simp add: geojson_def)
  show ?thesis using parse_uf_extinct_rejected [of uf sigla] g p by blast
qed

theorem geojson_rejects_extinct_witness:
  "parse_uf ''Guanabara'' True = Inr ''GB''
   \<and> parse_uf ''Guanabara'' False = Inl (DAB_UFError ''Guanabara'')
   \<and> geojson (answering (Inr []) (Inr ''{}'')) ''Guanabara''
        = ([], Inl (DAB_UFError ''Guanabara''))
   \<and> parse_uf ''XX'' False = Inl (DAB_UFError ''XX'')
   \<and> geojson (answering (Inr []) (Inr ''{}'')) ''XX'' = ([], Inl (DAB_UFError ''XX''))"
proof -
  let ?w = "answering (Inr []) (Inr ''{}'') :: string world"
  have a: "parse_uf ''Guanabara'' True = Inr ''GB''" by code_simp
  have b: "parse_uf ''XX'' False = Inl (DAB_UFError ''XX'')" by code_simp
  show ?thesis
    using geojson_rejects_extinct [of "''Guanabara''" "''GB''" ?w "DAB_UFError ''XX''"]
      geojson_rejects_extinct [of "''XX''" "''GB''" ?w "DAB_UFError ''XX''"] a b
    by simp
qed

lemma geojson_urls_distinct: "distinct (map (\<lambda>(c, n). geojson_url n) mapping)"
  by code_simp

lemma mapping_values_distinct: "distinct (map snd mapping)"
  by (simp add: mapping_def)

lemma mapping_urls_differ:
  assumes "map_of mapping c1 = Some n1" and "map_of mapping c2 = Some n2" and "c1 \<noteq> c2"
  shows "n1 \<noteq> n2 \<and> geojson_url n1 \<noteq> geojson_url n2"
proof -
  from assms have m: "(c1, n1) \<in> set mapping" "(c2, n2) \<in> set mapping"
    by (auto dest: map_of_SomeD)
  have "inj_on (\<lambda>(c, n). geojson_url n) (set mapping)"
    using geojson_urls_distinct by (simp add: distinct_map)
  with m assms(3) have "geojson_url n1 \<noteq> geojson_url n2"
    by (auto simp add: inj_on_def)
  then show ?thesis by auto
qed

lemma geojson_resolved:
  "parse_uf uf False = Inr sigla \<Longrightarrow> map_of mapping sigla = Some n \<Longrightarrow>
   geojson w uf = ([Requests_get_json (geojson_url n)], requests_get_json w (geojson_url n))"
  by (simp add: geojson_def)

text \<open>
  C10. The table \<open>mapping\<close> of \<^verbatim>\<open>geojson\<close> has 28 entries whose numbers are pairwise
  distinct, so two different codes of the table never lead to the same number nor to the
  same URL; and \<^verbatim>\<open>geojson\<close> itself, called with two identifiers that resolve to different
  codes, requests two different URLs.
\<close>

theorem mapping_injective:
  "length mapping = 28 \<and> distinct (map snd mapping)
   \<and> (map_of mapping c1 = Some n1 \<and> map_of mapping c2 = Some n2 \<and> c1 \<noteq> c2 \<longrightarrow>
        n1 \<noteq> n2 \<and> geojson_url n1 \<noteq> geojson_url n2)
   \<and> (parse_uf u1 False = Inr c1 \<and> parse_uf u2 False = Inr c2 \<and> c1 \<noteq> c2 \<longrightarrow>
        (\<exists>m1 m2.
            geojson w u1
              = ([Requests_get_json (geojson_url m1)], requests_get_json w (geojson_url m1))
          \<and> geojson w' u2
              = ([Requests_get_json (geojson_url m2)], requests_get_json w' (geojson_url m2))
          \<and> geojson_url m1 \<noteq> geojson_url m2)
        \<and> fst (geojson w u1) \<noteq> fst (geojson w' u2))"
proof -
  have l: "length mapping = 28" by (simp add: mapping_def)
  have t: "n1 \<noteq> n2 \<and> geojson_url n1 \<noteq> geojson_url n2"
    if "map_of mapping c1 = Some n1" "map_of mapping c2 = Some n2" "c1 \<noteq> c2"
    using that by (rule mapping_urls_differ)
  have f: "(\<exists>m1 m2.
            geojson w u1
              = ([Requests_get_json (geojson_url m1)], requests_get_json w (geojson_url m1))
          \<and> geojson w' u2
              = ([Requests_get_json (geojson_url m2)], requests_get_json w' (geojson_url m2))
          \<and> geojson_url m1 \<noteq> geojson_url m2)
        \<and> fst (geojson w u1) \<noteq> fst (geojson w' u2)"
    if r: "parse_uf u1 False = Inr c1" "parse_uf u2 False = Inr c2" and n: "c1 \<noteq> c2"
  proof -
    from r(1) obtain m1 where m1: "map_of mapping c1 = Some m1"
      using parse_uf_atual_mapping [of u1 c1] by blast
    from r(2) obtain m2 where m2: "map_of mapping c2 = Some m2"
      using parse_uf_atual_mapping [of u2 c2] by blast
    have d: "geojson_url m1 \<noteq> geojson_url m2"
      using mapping_urls_differ [OF m1 m2 n] by simp
    have g1: "geojson w u1
        = ([Requests_get_json (geojson_url m1)], requests_get_json w (geojson_url m1))"
      using r(1) m1 by (rule geojson_resolved)
    have g2: "geojson w' u2
        = ([Requests_get_json (geojson_url m2)], requests_get_json w' (geojson_url m2))"
      using r(2) m2 by (rule geojson_resolved)
    have "fst (geojson w u1) \<noteq> fst (geojson w' u2)"
      using d by (simp add: g1 g2)
    with g1 g2 d show ?thesis by blast
  qed
  from l mapping_values_distinct t f show ?thesis by blast
qed

theorem mapping_injective_witness:
  "map_of mapping ''SC'' = Some 42 \<and> map_of mapping ''PR'' = Some 41 \<and> ''SC'' \<noteq> ''PR''
   \<and> (42 :: int) \<noteq> 41 \<and> geojson_url 42 \<noteq> geojson_url 41
   \<and> parse_uf ''sc'' False = Inr ''SC'' \<and> parse_uf ''Parana'' False = Inr ''PR''
   \<and> fst (geojson (answering (Inr []) (Inr ())) ''sc'')
        \<noteq> fst (geojson (answering (Inr []) (Inr ())) ''Parana'')"
proof -
  let ?w = "answering (Inr []) (Inr ()) :: unit world"
  have a: "map_of mapping ''SC'' = Some 42" by (simp add: mapping_def)
  have b: "map_of mapping ''PR'' = Some 41" by (simp add: mapping_def)
  have c: "parse_uf ''sc'' False = Inr ''SC''" by code_simp
  have d: "parse_uf ''Parana'' False = Inr ''PR''" by code_simp
  have e: "''SC'' \<noteq> ''PR''" by simp
  from mapping_injective [of "''SC''" 42 "''PR''" 41 "''sc''" "''Parana''" ?w ?w] a b c d e
  show ?thesis by blast
qed

section \<open>Occurrences of the size token\<close>

lemma startswith_iff: "startswith s p \<longleftrightarrow> (\<exists>r. s = p @ r)"
  by (induction s p rule: startswith.induct) auto

lemma occurrences_absent:
  "c \<in> set pat \<Longrightarrow> c \<notin> set s \<Longrightarrow> occurrences pat s = 0"
proof (induction s)
  case Nil
  then show ?case by auto
next
  case (Cons a s)
  have "\<not> startswith (a # s) pat"
  proof
    assume "startswith (a # s) pat"
    then obtain r where "a # s = pat @ r" using startswith_iff by blast
    then have "set pat \<subseteq> set (a # s)" by (metis set_append Un_upper1)
    with Cons.prems show False by blast
  qed
  with Cons show ?case by simp
qed

lemma first_occurrence_unique:
  "x \<notin> set xs \<Longrightarrow> x \<notin> set xs' \<Longrightarrow>
   xs @ x # ys = xs' @ x # ys' \<longleftrightarrow> xs = xs' \<and> ys = ys'"
proof (induction xs arbitrary: xs')
  case Nil
  then show ?case by (cases xs') auto
next
  case (Cons a xs)
  then show ?case by (cases xs') auto
qed

lemma startswith_px:
  assumes "CHR ''x'' \<notin> set U" and "CHR ''x'' \<notin> set D"
  shows "startswith (U @ CHR ''x'' # V) (D @ ''px'') \<longleftrightarrow> U = D @ ''p''"
proof -
  have e: "(U @ CHR ''x'' # V = (D @ ''p'') @ CHR ''x'' # r) \<longleftrightarrow> (U = D @ ''p'' \<and> V = r)"
    for r
    using assms by (intro first_occurrence_unique) auto
  have "startswith (U @ CHR ''x'' # V) (D @ ''px'')
        \<longleftrightarrow> (\<exists>r. U @ CHR ''x'' # V = (D @ ''p'') @ CHR ''x'' # r)"
    by (simp add: startswith_iff)
  also have "\<dots> \<longleftrightarrow> U = D @ ''p''"
    unfolding e by simp
  finally show ?thesis .
qed

lemma startswith_px_length:
  assumes "CHR ''x'' \<notin> set U" and "CHR ''x'' \<notin> set D"
    and "length U \<noteq> Suc (length D)"
  shows "\<not> startswith (U @ CHR ''x'' # V) (D @ ''px'')"
proof
  assume "startswith (U @ CHR ''x'' # V) (D @ ''px'')"
  then have "U = D @ ''p''" using assms(1,2) by (simp add: startswith_px)
  then have "length U = Suc (length D)" by simp
  with assms(3) show False by simp
qed

lemma occurrences_px_short:
  assumes "CHR ''x'' \<notin> set D" and "CHR ''x'' \<notin> set V"
  shows "CHR ''x'' \<notin> set U \<Longrightarrow> length U \<le> length D \<Longrightarrow>
         occurrences (D @ ''px'') (U @ CHR ''x'' # V) = 0"
proof (induction U)
  case Nil
  have "\<not> startswith ([] @ CHR ''x'' # V) (D @ ''px'')"
    using assms(1) by (intro startswith_px_length) auto
  moreover have "occurrences (D @ ''px'') V = 0"
    using assms(2) by (intro occurrences_absent [of "CHR ''x''"]) auto
  ultimately show ?case by simp
next
  case (Cons u U)
  have "\<not> startswith ((u # U) @ CHR ''x'' # V) (D @ ''px'')"
    using Cons.prems assms(1) by (intro startswith_px_length) auto
  moreover have "occurrences (D @ ''px'') (U @ CHR ''x'' # V) = 0"
    using Cons by simp
  ultimately show ?case by simp
qed

lemma occurrences_px_once:
  assumes "CHR ''x'' \<notin> set D" and "CHR ''x'' \<notin> set V"
  shows "CHR ''x'' \<notin> set A \<Longrightarrow> occurrences (D @ ''px'') (A @ D @ ''px'' @ V) = 1"
proof (induction A)
  case Nil
  have s: "startswith (D @ ''px'' @ V) (D @ ''px'')" by (simp add: startswith_iff)
  show ?case
  proof (cases D)
    case Nil
    have "occurrences ''px'' ([] @ CHR ''x'' # V) = 0"
      using occurrences_px_short [of "[]" V "[]"] assms(2) by simp
    with Nil show ?thesis by simp
  next
    case (Cons d D')
    have "occurrences (D @ ''px'') ((D' @ ''p'') @ CHR ''x'' # V) = 0"
      using assms Cons by (intro occurrences_px_short) auto
    with s Cons show ?thesis by simp
  qed
next
  case (Cons a A)
  have "\<not> startswith (((a # A) @ D @ ''p'') @ CHR ''x'' # V) (D @ ''px'')"
    using Cons.prems assms(1) by (intro startswith_px_length) auto
  then have "\<not> startswith (a # A @ D @ ''px'' @ V) (D @ ''px'')" by simp
  with Cons show ?case by simp
qed

lemma digits_chars: "set (digits n) \<subseteq> set ''0123456789''"
proof (induction n rule: digits.induct)
  case (1 n)
  have d: "''0123456789'' ! k \<in> set ''0123456789''" if "k < 10" for k :: nat
    using that by (intro nth_mem) simp
  show ?case
  proof (cases "n < 10")
    case True
    then show ?thesis using d [of n] by (subst digits.simps) simp
  next
    case False
    then have "set (digits (n div 10)) \<subseteq> set ''0123456789''" using 1 by simp
    moreover have "''0123456789'' ! (n mod 10) \<in> set ''0123456789''" by (rule d) simp
    ultimately show ?thesis using False by (subst digits.simps) simp
  qed
qed

lemma str_int_no_x: "CHR ''x'' \<notin> set (str_int i)"
  using digits_chars [of "nat i"] digits_chars [of "nat (- i)"]
  by (auto simp add: str_int_def)

lemma fragment_occurrences:
  assumes "f = A @ str_int t @ B" and "CHR ''x'' \<notin> set A" and "startswith B ''px''"
    and "CHR ''x'' \<notin> set (drop 2 B)"
  shows "occurrences (str_int t @ ''px'') f = 1"
proof -
  from assms(3) obtain V where V: "B = ''px'' @ V" using startswith_iff by blast
  with assms(4) have "CHR ''x'' \<notin> set V" by simp
  then have "occurrences (str_int t @ ''px'') (A @ str_int t @ ''px'' @ V) = 1"
    using str_int_no_x assms(2) by (intro occurrences_px_once)
  with V assms(1) show ?thesis by simp
qed

lemma bandeira_table_px:
  "list_all (\<lambda>(c, f). occurrences (str_int t @ ''px'') f = 1) (bandeira_table t)"
  unfolding bandeira_table_def list_all_Cons_iff list_all_Nil_iff prod.case
  by (intro conjI TrueI; (rule fragment_occurrences [OF refl]; simp))

lemma brasao_table_px:
  "list_all (\<lambda>(c, f). occurrences (str_int t @ ''px'') f = 1) (brasao_table t)"
  unfolding brasao_table_def list_all_Cons_iff list_all_Nil_iff prod.case
  by (intro conjI TrueI; (rule fragment_occurrences [OF refl]; simp))

lemma bandeira_keys:
  "map fst (bandeira_table t) =
     [''BR'', ''AC'', ''AM'', ''AL'', ''AP'', ''BA'', ''CE'', ''DF'', ''ES'', ''GO'',
      ''MA'', ''MG'', ''MT'', ''MS'', ''PA'', ''PB'', ''PE'', ''PI'', ''PR'', ''RJ'',
      ''RO'', ''RN'', ''RR'', ''RS'', ''SC'', ''SE'', ''SP'', ''TO'', ''FN'', ''GB'']"
  by (simp add: bandeira_table_def)

lemma brasao_keys:
  "map fst (brasao_table t) =
     [''BR'', ''AC'', ''AM'', ''AL'', ''AP'', ''BA'', ''CE'', ''DF'', ''ES'', ''GO'',
      ''MA'', ''MG'', ''MT'', ''MS'', ''PA'', ''PB'', ''PE'', ''PI'', ''PR'', ''RJ'',
      ''RO'', ''RN'', ''RR'', ''RS'', ''SC'', ''SE'', ''SP'', ''TO'', ''FN'', ''GB'']"
  by (simp add: brasao_table_def)

lemma siglas_todas:
  "snd ` set (ufs_atuais @ ufs_extintos) =
     set [''BR'', ''AC'', ''AM'', ''AL'', ''AP'', ''BA'', ''CE'', ''DF'', ''ES'', ''GO'',
      ''MA'', ''MG'', ''MT'', ''MS'', ''PA'', ''PB'', ''PE'', ''PI'', ''PR'', ''RJ'',
      ''RO'', ''RN'', ''RR'', ''RS'', ''SC'', ''SE'', ''SP'', ''TO'', ''FN'', ''GB'']"
  unfolding ufs_atuais_def ufs_extintos_def by (simp add: insert_commute)

lemma keys_distinct:
  "distinct [''BR'', ''AC'', ''AM'', ''AL'', ''AP'', ''BA'', ''CE'', ''DF'', ''ES'', ''GO'',
      ''MA'', ''MG'', ''MT'', ''MS'', ''PA'', ''PB'', ''PE'', ''PI'', ''PR'', ''RJ'',
      ''RO'', ''RN'', ''RR'', ''RS'', ''SC'', ''SE'', ''SP'', ''TO'', ''FN'', ''GB'']"
  by simp

lemma bandeira_prefixes_distinct: "distinct (map (take 6 \<circ> snd) (bandeira_table t))"
  by (simp add: bandeira_table_def)

lemma brasao_prefixes_distinct: "distinct (map (take 14 \<circ> snd) (brasao_table t))"
  by (simp add: brasao_table_def)

section \<open>\<^verbatim>\<open>bandeira\<close> and \<^verbatim>\<open>brasao\<close>\<close>

lemma distinct_map_comp: "distinct (map (f \<circ> g) xs) \<Longrightarrow> distinct (map g xs)"
  by (induction xs) auto

lemma bandeira_fragments_distinct: "distinct (map snd (bandeira_table t))"
  using bandeira_prefixes_distinct by (rule distinct_map_comp)

lemma brasao_fragments_distinct: "distinct (map snd (brasao_table t))"
  using brasao_prefixes_distinct by (rule distinct_map_comp)

lemma map_of_distinct_values:
  assumes "distinct (map snd tab)" and "map_of tab k1 = Some v1" and "map_of tab k2 = Some v2"
    and "k1 \<noteq> k2"
  shows "v1 \<noteq> v2"
proof
  assume "v1 = v2"
  moreover have "(k1, v1) \<in> set tab" "(k2, v2) \<in> set tab"
    using assms(2,3) by (auto dest: map_of_SomeD)
  moreover have "inj_on snd (set tab)" using assms(1) by (simp add: distinct_map)
  ultimately have "(k1, v1) = (k2, v2)" by (intro inj_onD [of snd "set tab"]) simp_all
  with assms(4) show False by simp
qed

lemma map_of_defined: "k \<in> set (map fst tab) \<Longrightarrow> \<exists>v. map_of tab k = Some v"
  by (cases "map_of tab k") (auto simp add: map_of_eq_None_iff)

lemma parse_uf_bandeira_key:
  assumes "parse_uf uf True = Inr sigla"
  shows "\<exists>f. map_of (bandeira_table t) sigla = Some f"
proof -
  have "sigla \<in> snd ` set (ufs_atuais @ ufs_extintos)"
    using parse_uf_range [OF assms] by simp
  then have "sigla \<in> set (map fst (bandeira_table t))"
    unfolding siglas_todas bandeira_keys .
  then show ?thesis by (rule map_of_defined)
qed

lemma parse_uf_brasao_key:
  assumes "parse_uf uf True = Inr sigla"
  shows "\<exists>f. map_of (brasao_table t) sigla = Some f"
proof -
  have "sigla \<in> snd ` set (ufs_atuais @ ufs_extintos)"
    using parse_uf_range [OF assms] by simp
  then have "sigla \<in> set (map fst (brasao_table t))"
    unfolding siglas_todas brasao_keys .
  then show ?thesis by (rule map_of_defined)
qed

lemma bandeira_resolved:
  "parse_uf uf True = Inr sigla \<Longrightarrow> map_of (bandeira_table t) sigla = Some f \<Longrightarrow>
   bandeira uf t = ([], Inr (wikimedia_URL @ f))"
  by (simp add: bandeira_def)

lemma brasao_resolved:
  "parse_uf uf True = Inr sigla \<Longrightarrow> map_of (brasao_table t) sigla = Some f \<Longrightarrow>
   brasao uf t = ([], Inr (wikimedia_URL @ f))"
  by (simp add: brasao_def)

lemma bandeira_rejected: "parse_uf uf True = Inl e \<Longrightarrow> bandeira uf t = ([], Inl e)"
  by (simp add: bandeira_def)

lemma brasao_rejected: "parse_uf uf True = Inl e \<Longrightarrow> brasao uf t = ([], Inl e)"
  by (simp add: brasao_def)

lemma SC_200:
  "bandeira ''SC'' 200 =
     ([], Inr ''https://upload.wikimedia.org/wikipedia/commons/thumb/1/1a/Bandeira_de_Santa_Catarina.svg/200px-Bandeira_de_Santa_Catarina.svg.png'')"
  "brasao ''SC'' 200 =
     ([], Inr (''https://upload.wikimedia.org/wikipedia/commons/thumb/6/65/Bras'' @ [CHR 0xE3]
        @ ''o_de_Santa_Catarina.svg/200px-Bras'' @ [CHR 0xE3] @ ''o_de_Santa_Catarina.svg.png''))"
  "occurrences ''200px'' ''https://upload.wikimedia.org/wikipedia/commons/thumb/1/1a/Bandeira_de_Santa_Catarina.svg/200px-Bandeira_de_Santa_Catarina.svg.png'' = 1"
  "size_tokens ''https://upload.wikimedia.org/wikipedia/commons/thumb/1/1a/Bandeira_de_Santa_Catarina.svg/200px-Bandeira_de_Santa_Catarina.svg.png'' = [''200'']"
  "occurrences ''200px'' (''https://upload.wikimedia.org/wikipedia/commons/thumb/6/65/Bras'' @ [CHR 0xE3]
        @ ''o_de_Santa_Catarina.svg/200px-Bras'' @ [CHR 0xE3] @ ''o_de_Santa_Catarina.svg.png'') = 1"
  "size_tokens (''https://upload.wikimedia.org/wikipedia/commons/thumb/6/65/Bras'' @ [CHR 0xE3]
        @ ''o_de_Santa_Catarina.svg/200px-Bras'' @ [CHR 0xE3] @ ''o_de_Santa_Catarina.svg.png'') = [''200'']"
  by code_simp+

text \<open>
  C3. For every identifier that the resolver accepts with extinct codes allowed and every
  integer \<^verbatim>\<open>tamanho\<close>, negative and zero included, and with no check of \<^verbatim>\<open>tamanho\<close>,
  \<^verbatim>\<open>bandeira\<close> and \<^verbatim>\<open>brasao\<close> make no call to a collaborator and return the base URL
  \<^verbatim>\<open>https://upload.wikimedia.org/wikipedia/commons/thumb/\<close> followed by the fragment their
  table has for the resolved code, in which the decimal rendering of \<^verbatim>\<open>tamanho\<close> followed by
  \<^verbatim>\<open>px\<close> begins at exactly one position. In particular the URLs of \<^verbatim>\<open>bandeira('SC', 200)\<close> and
  \<^verbatim>\<open>brasao('SC', 200)\<close> contain \<^verbatim>\<open>200px\<close> once, and \<^verbatim>\<open>200\<close> is their only numeric size token.
\<close>

theorem bandeira_brasao_url:
  "(parse_uf uf True = Inr sigla \<longrightarrow>
      (\<exists>f. map_of (bandeira_table tamanho) sigla = Some f
         \<and> bandeira uf tamanho =
             ([], Inr (''https://upload.wikimedia.org/wikipedia/commons/thumb/'' @ f))
         \<and> occurrences (str_int tamanho @ ''px'') f = 1)
      \<and> (\<exists>f. map_of (brasao_table tamanho) sigla = Some f
         \<and> brasao uf tamanho =
             ([], Inr (''https://upload.wikimedia.org/wikipedia/commons/thumb/'' @ f))
         \<and> occurrences (str_int tamanho @ ''px'') f = 1))
   \<and> (\<exists>u. bandeira ''SC'' 200 = ([], Inr u) \<and> occurrences ''200px'' u = 1
         \<and> size_tokens u = [''200''])
   \<and> (\<exists>u. brasao ''SC'' 200 = ([], Inr u) \<and> occurrences ''200px'' u = 1
         \<and> size_tokens u = [''200''])"
proof -
  have a: "\<exists>f. map_of (bandeira_table tamanho) sigla = Some f
         \<and> bandeira uf tamanho =
             ([], Inr (''https://upload.wikimedia.org/wikipedia/commons/thumb/'' @ f))
         \<and> occurrences (str_int tamanho @ ''px'') f = 1"
    if r: "parse_uf uf True = Inr sigla"
  proof -
    from r obtain f where f: "map_of (bandeira_table tamanho) sigla = Some f"
      using parse_uf_bandeira_key by blast
    then have "(sigla, f) \<in> set (bandeira_table tamanho)" by (rule map_of_SomeD)
    then have "occurrences (str_int tamanho @ ''px'') f = 1"
      using bandeira_table_px [of tamanho] by (auto simp add: list_all_iff)
    moreover have "bandeira uf tamanho = ([], Inr (wikimedia_URL @ f))"
      using r f by (rule bandeira_resolved)
    ultimately show ?thesis using f by (simp add: wikimedia_URL_def)
  qed
  have b: "\<exists>f. map_of (brasao_table tamanho) sigla = Some f
         \<and> brasao uf tamanho =
             ([], Inr (''https://upload.wikimedia.org/wikipedia/commons/thumb/'' @ f))
         \<and> occurrences (str_int tamanho @ ''px'') f = 1"
    if r: "parse_uf uf True = Inr sigla"
  proof -
    from r obtain f where f: "map_of (brasao_table tamanho) sigla = Some f"
      using parse_uf_brasao_key by blast
    then have "(sigla, f) \<in> set (brasao_table tamanho)" by (rule map_of_SomeD)
    then have "occurrences (str_int tamanho @ ''px'') f = 1"
      using brasao_table_px [of tamanho] by (auto simp add: list_all_iff)
    moreover have "brasao uf tamanho = ([], Inr (wikimedia_URL @ f))"
      using r f by (rule brasao_resolved)
    ultimately show ?thesis using f by (simp add: wikimedia_URL_def)
  qed
  have c: "\<exists>u. bandeira ''SC'' 200 = ([], Inr u) \<and> occurrences ''200px'' u = 1
         \<and> size_tokens u = [''200'']"
    using SC_200(1,3,4) by blast
  have d: "\<exists>u. brasao ''SC'' 200 = ([], Inr u) \<and> occurrences ''200px'' u = 1
         \<and> size_tokens u = [''200'']"
    using SC_200(2,5,6) by blast
  from a b c d show ?thesis by blast
qed

theorem bandeira_brasao_url_witness:
  "parse_uf ''sc'' True = Inr ''SC''
   \<and> bandeira ''sc'' (- 3) =
       ([], Inr ''https://upload.wikimedia.org/wikipedia/commons/thumb/1/1a/Bandeira_de_Santa_Catarina.svg/-3px-Bandeira_de_Santa_Catarina.svg.png'')
   \<and> occurrences ''-3px''
        ''1/1a/Bandeira_de_Santa_Catarina.svg/-3px-Bandeira_de_Santa_Catarina.svg.png'' = 1"
proof -
  have r: "parse_uf ''sc'' True = Inr ''SC''" by code_simp
  have m: "map_of (bandeira_table (- 3)) ''SC'' =
      Some ''1/1a/Bandeira_de_Santa_Catarina.svg/-3px-Bandeira_de_Santa_Catarina.svg.png''"
    by code_simp
  have s: "str_int (- 3) = ''-3''" by code_simp
  show ?thesis
    using bandeira_brasao_url [of "''sc''" "''SC''" "- 3"] r m s by auto
qed

text \<open>
  C4. For \<^verbatim>\<open>bandeira\<close> and for \<^verbatim>\<open>brasao\<close>, at a fixed size, two identifiers that resolve to
  different codes (the extinct \<^verbatim>\<open>FN\<close> and \<^verbatim>\<open>GB\<close> among them) get different URLs: the fragments
  of each table are pairwise distinct. Two identifiers that resolve alike get the same
  outcome at the same size, so the URL of a code and size is always the same string.
\<close>

theorem bandeira_brasao_distinct_stable:
  "(parse_uf uf1 True = Inr s1 \<and> parse_uf uf2 True = Inr s2 \<and> s1 \<noteq> s2 \<longrightarrow>
      (\<exists>u1 u2. bandeira uf1 t = ([], Inr u1) \<and> bandeira uf2 t = ([], Inr u2) \<and> u1 \<noteq> u2)
      \<and> (\<exists>u1 u2. brasao uf1 t = ([], Inr u1) \<and> brasao uf2 t = ([], Inr u2) \<and> u1 \<noteq> u2))
   \<and> (parse_uf uf1 True = parse_uf uf2 True \<longrightarrow>
        bandeira uf1 t = bandeira uf2 t \<and> brasao uf1 t = brasao uf2 t)
   \<and> distinct (map snd (bandeira_table t)) \<and> distinct (map snd (brasao_table t))"
proof -
  have a: "\<exists>u1 u2. bandeira uf1 t = ([], Inr u1) \<and> bandeira uf2 t = ([], Inr u2) \<and> u1 \<noteq> u2"
    if r: "parse_uf uf1 True = Inr s1" "parse_uf uf2 True = Inr s2" and n: "s1 \<noteq> s2"
  proof -
    from r obtain f1 f2 where f: "map_of (bandeira_table t) s1 = Some f1"
      "map_of (bandeira_table t) s2 = Some f2"
      using parse_uf_bandeira_key by blast
    have "f1 \<noteq> f2"
      using bandeira_fragments_distinct f n by (rule map_of_distinct_values)
    moreover have "bandeira uf1 t = ([], Inr (wikimedia_URL @ f1))"
      using r(1) f(1) by (rule bandeira_resolved)
    moreover have "bandeira uf2 t = ([], Inr (wikimedia_URL @ f2))"
      using r(2) f(2) by (rule bandeira_resolved)
    ultimately show ?thesis by simp
  qed
  have b: "\<exists>u1 u2. brasao uf1 t = ([], Inr u1) \<and> brasao uf2 t = ([], Inr u2) \<and> u1 \<noteq> u2"
    if r: "parse_uf uf1 True = Inr s1" "parse_uf uf2 True = Inr s2" and n: "s1 \<noteq> s2"
  proof -
    from r obtain f1 f2 where f: "map_of (brasao_table t) s1 = Some f1"
      "map_of (brasao_table t) s2 = Some f2"
      using parse_uf_brasao_key by blast
    have "f1 \<noteq> f2"
      using brasao_fragments_distinct f n by (rule map_of_distinct_values)
    moreover have "brasao uf1 t = ([], Inr (wikimedia_URL @ f1))"
      using r(1) f(1) by (rule brasao_resolved)
    moreover have "brasao uf2 t = ([], Inr (wikimedia_URL @ f2))"
      using r(2) f(2) by (rule brasao_resolved)
    ultimately show ?thesis by simp
  qed
  have c: "bandeira uf1 t = bandeira uf2 t \<and> brasao uf1 t = brasao uf2 t"
    if "parse_uf uf1 True = parse_uf uf2 True"
    using that by (simp add: bandeira_def brasao_def)
  from a b c bandeira_fragments_distinct brasao_fragments_distinct show ?thesis by blast
qed

theorem bandeira_brasao_distinct_stable_witness:
  "parse_uf ''FN'' True = Inr ''FN'' \<and> parse_uf ''gb'' True = Inr ''GB'' \<and> ''FN'' \<noteq> ''GB''
   \<and> snd (bandeira ''FN'' 100) \<noteq> snd (bandeira ''gb'' 100)
   \<and> snd (brasao ''FN'' 100) \<noteq> snd (brasao ''gb'' 100)
   \<and> parse_uf ''GB'' True = parse_uf ''gb'' True
   \<and> bandeira ''GB'' 100 = bandeira ''gb'' 100 \<and> brasao ''GB'' 100 = brasao ''gb'' 100"
proof -
  have a: "parse_uf ''FN'' True = Inr ''FN''" by code_simp
  have b: "parse_uf ''gb'' True = Inr ''GB''" by code_simp
  have c: "parse_uf ''GB'' True = Inr ''GB''" by code_simp
  show ?thesis
    using bandeira_brasao_distinct_stable [of "''FN''" "''FN''" "''gb''" "''GB''" 100]
      bandeira_brasao_distinct_stable [of "''GB''" "''GB''" "''gb''" "''GB''" 100] a b c
    by auto
qed

text \<open>
  C9. The tables of \<^verbatim>\<open>bandeira\<close> and \<^verbatim>\<open>brasao\<close> have the same 30 keys, whatever the sizes: the
  28 keys of the table of \<^verbatim>\<open>geojson\<close> (\<^verbatim>\<open>BR\<close> and the 27 current codes) and the extinct \<^verbatim>\<open>FN\<close>
  and \<^verbatim>\<open>GB\<close>, each once. Hence \<^verbatim>\<open>bandeira\<close> raises for an identifier exactly when \<^verbatim>\<open>brasao\<close>
  does, and every code the resolver returns with extinct codes allowed is a key of both
  tables.
\<close>

theorem bandeira_brasao_same_keys:
  "map fst (bandeira_table t) =
     [''BR'', ''AC'', ''AM'', ''AL'', ''AP'', ''BA'', ''CE'', ''DF'', ''ES'', ''GO'',
      ''MA'', ''MG'', ''MT'', ''MS'', ''PA'', ''PB'', ''PE'', ''PI'', ''PR'', ''RJ'',
      ''RO'', ''RN'', ''RR'', ''RS'', ''SC'', ''SE'', ''SP'', ''TO'', ''FN'', ''GB'']
   \<and> map fst (brasao_table t') = map fst (bandeira_table t)
   \<and> length (bandeira_table t) = 30 \<and> length (brasao_table t') = 30
   \<and> distinct (map fst (bandeira_table t))
   \<and> set (map fst (bandeira_table t)) = set (map fst mapping) \<union> {''FN'', ''GB''}
   \<and> isl (snd (bandeira uf t)) = isl (snd (brasao uf t'))
   \<and> (parse_uf uf True = Inr sigla \<longrightarrow>
        (\<exists>f g. map_of (bandeira_table t) sigla = Some f \<and> map_of (brasao_table t') sigla = Some g))"
proof -
  have l: "length (bandeira_table t) = 30" "length (brasao_table t') = 30"
    using arg_cong [OF bandeira_keys [of t], of length]
      arg_cong [OF brasao_keys [of t'], of length] by simp_all
  have d: "distinct (map fst (bandeira_table t))"
    unfolding bandeira_keys by (rule keys_distinct)
  have s: "set (map fst (bandeira_table t)) = set (map fst mapping) \<union> {''FN'', ''GB''}"
    unfolding bandeira_keys by (simp add: mapping_def insert_commute)
  have i: "isl (snd (bandeira uf t)) = isl (snd (brasao uf t'))"
  proof (cases "parse_uf uf True")
    case (Inl e)
    then show ?thesis by (simp add: bandeira_rejected brasao_rejected)
  next
    case (Inr c)
    then obtain f g where "map_of (bandeira_table t) c = Some f"
      "map_of (brasao_table t') c = Some g"
      using parse_uf_bandeira_key parse_uf_brasao_key by blast
    with Inr show ?thesis by (simp add: bandeira_resolved brasao_resolved)
  qed
  have k: "\<exists>f g. map_of (bandeira_table t) sigla = Some f \<and> map_of (brasao_table t') sigla = Some g"
    if "parse_uf uf True = Inr sigla"
    using that parse_uf_bandeira_key parse_uf_brasao_key by blast
  show ?thesis
    using bandeira_keys [of t] brasao_keys [of t'] l d s i k by simp
qed

theorem bandeira_brasao_same_keys_witness:
  "parse_uf ''Guanabara'' True = Inr ''GB''
   \<and> (\<exists>f g. map_of (bandeira_table 100) ''GB'' = Some f \<and> map_of (brasao_table 50) ''GB'' = Some g)"
proof -
  have a: "parse_uf ''Guanabara'' True = Inr ''GB''" by code_simp
  show ?thesis
    using bandeira_brasao_same_keys [of 100 50 "''Guanabara''" "''GB''"] a by blast
qed

section \<open>\<^verbatim>\<open>codigos_municipios\<close>\<close>

lemma filter_label_unique:
  "distinct (map fst df) \<Longrightarrow> map_of df l = Some v \<Longrightarrow>
   filter (\<lambda>(label, cells). label = l) df = [(l, v)]"
proof (induction df)
  case Nil
  then show ?case by simp
next
  case (Cons p df)
  obtain a b where p: "p = (a, b)" by (cases p)
  show ?case
  proof (cases "a = l")
    case True
    then have "l \<notin> fst ` set df" using Cons.prems(1) p by simp
    then have "filter (\<lambda>(label, cells). label = l) df = []"
      by (force simp add: filter_empty_conv)
    with True p Cons.prems(2) show ?thesis by simp
  next
    case False
    with p Cons show ?thesis by simp
  qed
qed

lemma getitem_columns_present:
  assumes "distinct (map fst df)" and "set labels \<subseteq> set (map fst df)"
  shows "\<exists>t. getitem_columns df labels = Inr t \<and> map fst t = labels
           \<and> (\<forall>l \<in> set labels. map_of t l = map_of df l)"
proof -
  have n: "find (\<lambda>l. l \<notin> set (map fst df)) labels = None"
    using assms(2) by (auto simp add: find_None_iff)
  have c: "concat (map (\<lambda>l. filter (\<lambda>(label, cells). label = l) df) ls)
           = map (\<lambda>l. (l, the (map_of df l))) ls"
    if "set ls \<subseteq> set (map fst df)" for ls
    using that
  proof (induction ls)
    case Nil
    then show ?case by simp
  next
    case (Cons l ls)
    then have "l \<in> set (map fst df)" by simp
    then obtain v where v: "map_of df l = Some v" using map_of_defined [of l df] by blast
    have "filter (\<lambda>(label, cells). label = l) df = [(l, v)]"
      using assms(1) v by (rule filter_label_unique)
    with Cons v show ?case by simp
  qed
  let ?t = "map (\<lambda>l. (l, the (map_of df l))) labels"
  have g: "getitem_columns df labels = Inr ?t"
    using n c [OF assms(2)] by (simp add: getitem_columns_def)
  have m: "map fst ?t = labels" by (simp add: comp_def)
  have q: "map_of ?t l = map_of df l" if "l \<in> set labels" for l
  proof -
    from that assms(2) have "l \<in> set (map fst df)" by blast
    then obtain v where v: "map_of df l = Some v"
      using map_of_defined [of l df] by blast
    have "map_of ?t l = Some (the (map_of df l))"
      using that by (induction labels) auto
    with v show ?thesis by simp
  qed
  show ?thesis
  proof (intro exI conjI ballI)
    show "getitem_columns df labels = Inr ?t" by (rule g)
    show "map fst ?t = labels" by (rule m)
    show "map_of ?t l = map_of df l" if "l \<in> set labels" for l using that by (rule q)
  qed
qed

lemma getitem_columns_missing:
  assumes "\<not> set labels \<subseteq> set (map fst df)"
  shows "\<exists>l. l \<in> set labels \<and> l \<notin> set (map fst df) \<and> getitem_columns df labels = Inl (KeyError l)"
proof -
  from assms obtain l where "find (\<lambda>l. l \<notin> set (map fst df)) labels = Some l"
    by (cases "find (\<lambda>l. l \<notin> set (map fst df)) labels") (auto simp add: find_None_iff)
  moreover from this have "l \<in> set labels \<and> l \<notin> set (map fst df)"
    by (auto simp add: find_Some_iff)
  ultimately show ?thesis by (auto simp add: getitem_columns_def)
qed


text \<open>
  The loader may succeed with a table that lacks one of the five columns; then
  \<^verbatim>\<open>codigos_municipios\<close> returns no table, the selection raises \<^verbatim>\<open>KeyError\<close>.
\<close>

theorem codigos_municipios_missing_column:
  "codigos_municipios (answering (Inr [(''codigo_tse'', [PyInt 1120]), (''uf'', [PyStr ''AC''])])
       (Inr ()))
     = ([Pd_read_json municipios_URL], Inl (KeyError ''codigo_ibge''))"
  by (simp add: codigos_municipios_def answering_def getitem_columns_def)

text \<open>
  C7, amended. \<^verbatim>\<open>codigos_municipios\<close> makes one request to the JSON table loader. When the
  loader answers with a table whose column labels are pairwise distinct and include
  \<^verbatim>\<open>codigo_tse\<close>, \<^verbatim>\<open>codigo_ibge\<close>, \<^verbatim>\<open>nome_municipio\<close>, \<^verbatim>\<open>uf\<close> and \<^verbatim>\<open>capital\<close>, the result is a table
  whose columns are exactly these five, in this order, each with the cells it has
  upstream, whatever other columns the upstream table has. When the loaded table lacks
  one of the five, \<^verbatim>\<open>KeyError\<close> is raised for a missing label; when the loader fails, its
  error is the outcome.
\<close>

theorem codigos_municipios_columns:
  "(pd_read_json w municipios_URL = Inr df \<and> distinct (map fst df)
      \<and> set [''codigo_tse'', ''codigo_ibge'', ''nome_municipio'', ''uf'', ''capital'']
           \<subseteq> set (map fst df) \<longrightarrow>
      (\<exists>t. codigos_municipios w = ([Pd_read_json municipios_URL], Inr t)
         \<and> map fst t = [''codigo_tse'', ''codigo_ibge'', ''nome_municipio'', ''uf'', ''capital'']
         \<and> (\<forall>l \<in> set [''codigo_tse'', ''codigo_ibge'', ''nome_municipio'', ''uf'', ''capital''].
               map_of t l = map_of df l)))
   \<and> (pd_read_json w municipios_URL = Inr df
      \<and> \<not> set [''codigo_tse'', ''codigo_ibge'', ''nome_municipio'', ''uf'', ''capital'']
           \<subseteq> set (map fst df) \<longrightarrow>
      (\<exists>l. l \<notin> set (map fst df)
         \<and> codigos_municipios w = ([Pd_read_json municipios_URL], Inl (KeyError l))))
   \<and> (pd_read_json w municipios_URL = Inl e \<longrightarrow>
        codigos_municipios w = ([Pd_read_json municipios_URL], Inl e))"
proof -
  let ?cols = "[''codigo_tse'', ''codigo_ibge'', ''nome_municipio'', ''uf'', ''capital'']"
  have a: "\<exists>t. codigos_municipios w = ([Pd_read_json municipios_URL], Inr t)
         \<and> map fst t = ?cols \<and> (\<forall>l \<in> set ?cols. map_of t l = map_of df l)"
    if r: "pd_read_json w municipios_URL = Inr df" and d: "distinct (map fst df)"
      and s: "set ?cols \<subseteq> set (map fst df)"
  proof -
    from getitem_columns_present [OF d s] obtain t where
      t: "getitem_columns df ?cols = Inr t \<and> map fst t = ?cols
          \<and> (\<forall>l \<in> set ?cols. map_of t l = map_of df l)" ..
    have "codigos_municipios w = ([Pd_read_json municipios_URL], Inr t)"
      using r t [THEN conjunct1] by (simp add: codigos_municipios_def)
    with t [THEN conjunct2] show ?thesis by (intro exI [of _ t] conjI) simp_all
  qed
  have b: "\<exists>l. l \<notin> set (map fst df)
         \<and> codigos_municipios w = ([Pd_read_json municipios_URL], Inl (KeyError l))"
    if r: "pd_read_json w municipios_URL = Inr df" and s: "\<not> set ?cols \<subseteq> set (map fst df)"
  proof -
    from getitem_columns_missing [OF s] obtain l where
      l: "l \<in> set ?cols \<and> l \<notin> set (map fst df)
          \<and> getitem_columns df ?cols = Inl (KeyError l)" ..
    have "codigos_municipios w = ([Pd_read_json municipios_URL], Inl (KeyError l))"
      using r l by (simp add: codigos_municipios_def)
    with l show ?thesis by (intro exI [of _ l] conjI) simp_all
  qed
  have c: "codigos_municipios w = ([Pd_read_json municipios_URL], Inl e)"
    if "pd_read_json w municipios_URL = Inl e"
    using that by (simp add: codigos_municipios_def)
  from a b c show ?thesis by blast
qed



theorem codigos_municipios_columns_witness:
  "codigos_municipios
     (answering
        (Inr [(''codigo_ibge'', [PyInt 1200013]), (''extra'', [PyNone]),
              (''capital'', [PyInt 0]), (''codigo_tse'', [PyInt 1120]),
              (''uf'', [PyStr ''AC'']), (''nome_municipio'', [PyStr ''ACRELANDIA''])])
        (Inr ()))
   = ([Pd_read_json municipios_URL],
      Inr [(''codigo_tse'', [PyInt 1120]), (''codigo_ibge'', [PyInt 1200013]),
           (''nome_municipio'', [PyStr ''ACRELANDIA'']), (''uf'', [PyStr ''AC'']),
           (''capital'', [PyInt 0])])
   \<and> (\<exists>l. codigos_municipios (answering (Inr [(''uf'', [PyStr ''AC''])]) (Inr ()))
           = ([Pd_read_json municipios_URL], Inl (KeyError l)))
   \<and> codigos_municipios (answering (Inl (ResourceUnavailable ''404'')) (Inr ()))
       = ([Pd_read_json municipios_URL], Inl (ResourceUnavailable ''404''))"
proof -
  let ?df = "[(''codigo_ibge'', [PyInt 1200013]), (''extra'', [PyNone]),
              (''capital'', [PyInt 0]), (''codigo_tse'', [PyInt 1120]),
              (''uf'', [PyStr ''AC'']), (''nome_municipio'', [PyStr ''ACRELANDIA''])]"
  let ?w = "answering (Inr ?df) (Inr ()) :: unit world"
  let ?w2 = "answering (Inr [(''uf'', [PyStr ''AC''])]) (Inr ()) :: unit world"
  let ?w3 = "answering (Inl (ResourceUnavailable ''404'')) (Inr ()) :: unit world"
  have r: "pd_read_json ?w municipios_URL = Inr ?df" by (simp add: answering_def)
  have d: "distinct (map fst ?df)" by simp
  have s: "set [''codigo_tse'', ''codigo_ibge'', ''nome_municipio'', ''uf'', ''capital'']
             \<subseteq> set (map fst ?df)" by simp
  from codigos_municipios_columns [of ?w ?df] r d s obtain t where
    t: "codigos_municipios ?w = ([Pd_read_json municipios_URL], Inr t)"
    by blast
  have e: "codigos_municipios ?w = ([Pd_read_json municipios_URL],
      Inr [(''codigo_tse'', [PyInt 1120]), (''codigo_ibge'', [PyInt 1200013]),
           (''nome_municipio'', [PyStr ''ACRELANDIA'']), (''uf'', [PyStr ''AC'']),
           (''capital'', [PyInt 0])])"
    by (simp add: codigos_municipios_def answering_def getitem_columns_def)
  have r2: "pd_read_json ?w2 municipios_URL = Inr [(''uf'', [PyStr ''AC''])]"
    by (simp add: answering_def)
  have s2: "\<not> set [''codigo_tse'', ''codigo_ibge'', ''nome_municipio'', ''uf'', ''capital'']
             \<subseteq> set (map fst [(''uf'', [PyStr ''AC''])])" by simp
  from codigos_municipios_columns [of ?w2 "[(''uf'', [PyStr ''AC''])]"] r2 s2
  have k: "\<exists>l. codigos_municipios ?w2 = ([Pd_read_json municipios_URL], Inl (KeyError l))"
    by blast
  have r3: "pd_read_json ?w3 municipios_URL = Inl (ResourceUnavailable ''404'')"
    by (simp add: answering_def)
  from codigos_municipios_columns [of ?w3 _ "ResourceUnavailable ''404''"] r3
  have f: "codigos_municipios ?w3 = ([Pd_read_json municipios_URL], Inl (ResourceUnavailable ''404''))"
    by blast
  from t e k f show ?thesis by simp
qed

end
